theory Spec2Isabelle
  imports Main "HOL-Library.Word"
begin

unbundle bit_operations_syntax

section \<open>Requests and packets\<close>

text \<open>
  The memory transaction messages exchanged by the timing CPU (\<^verbatim>\<open>src/cpu/simple/timing.cc\<close>)
  and the cache (\<^verbatim>\<open>src/mem/cache/cache_impl.hh\<close>). The declaring headers are not part of the
  sources at hand, so the records hold exactly the members the two files read or write.
  Request flags and packet flags are bit masks in the source; a mask is modelled as the set of
  the bits that are on, so \<^verbatim>\<open>flags |= F\<close> is \<open>insert F\<close>, \<^verbatim>\<open>flags &= ~F\<close> is
  removal, and \<^verbatim>\<open>flags & F\<close> is membership.
\<close>

type_synonym Addr = "64 word"
type_synonym Tick = int
type_synonym bytes = "8 word list"

datatype Fault = NoFault | FaultValue nat

datatype ReqFlag = UNCACHEABLE | LOCKED | OtherReqFlag nat

record Request =
  vaddr :: Addr
  paddr :: Addr
  req_size :: int
  req_flags :: "ReqFlag set"
  req_pc :: Addr
  req_cpu :: int
  req_time :: Tick

datatype Command =
    ReadReq | WriteReq | WriteInvalidateReq | InvalidateReq
  | Writeback | UpgradeReq | HardPFReq | OtherCmd nat

datatype Result = Success | BadAddress | Nacked | Unknown

datatype PktFlag =
    SATISFIED | NACKED_LINE | SNOOP_COMMIT | CACHE_LINE_FILL | SHARED_LINE | NO_ALLOCATE

text \<open>
  \<open>pkt_id\<close> is the identity of the packet object (the value of the \<^verbatim>\<open>PacketPtr\<close>):
  two packets with equal contents allocated by two \<^verbatim>\<open>new Packet\<close> are different objects.
  \<open>senderState\<close> is the pointer to the miss entry that issued the packet, \<open>None\<close> for NULL.
\<close>

record Packet =
  pkt_id :: nat
  req :: Request
  cmd :: Command
  addr :: Addr
  pkt_size :: int
  pkt_data :: bytes
  result :: Result
  flags :: "PktFlag set"
  senderState :: "nat option"
  pkt_time :: Tick

text \<open>
  \<^verbatim>\<open>new Packet(req, cmd, dest)\<close> followed by the attachment of a data buffer. The packet takes
  its address and size from the request, carries no flags, no sender state and an undetermined
  result.
\<close>

definition new_Packet :: "nat \<Rightarrow> Request \<Rightarrow> Command \<Rightarrow> bytes \<Rightarrow> Tick \<Rightarrow> Packet" where
  "new_Packet i rq c d t =
     \<lparr>pkt_id = i, req = rq, cmd = c, addr = paddr rq, pkt_size = req_size rq,
      pkt_data = d, result = Unknown, flags = {}, senderState = None, pkt_time = t\<rparr>"

datatype error =
    AssertFailed string | Panic string | NullPointer string | OutOfBounds string | OutOfFuel

section \<open>The timing CPU\<close>

datatype Status =
    Idle | Running | IcacheRetry | IcacheWaitResponse
  | DcacheRetry | DcacheWaitResponse | SwitchedOut

text \<open>The lifecycle state of \<^verbatim>\<open>SimObject\<close> (\<^verbatim>\<open>changeState\<close>, \<^verbatim>\<open>getState\<close>).\<close>

datatype SimState = SimRunning | Draining | Drained

datatype Port = IcachePort | DcachePort

text \<open>
  What \<^verbatim>\<open>curStaticInst->initiateAcc(this, traceData)\<close> does with the CPU: a load calls
  \<^verbatim>\<open>read\<close>, a store calls \<^verbatim>\<open>write\<close> and returns their fault, and an instruction can return
  a fault without any access.
\<close>

datatype MemOp =
    MemRead Addr int "ReqFlag set"
  | MemWrite bytes Addr "ReqFlag set"
  | MemNone Fault

record StaticInst =
  isDelayedCommit :: bool
  isMemRef :: bool
  isDataPrefetch :: bool
  initiateAcc :: MemOp
  completeAcc :: "Packet \<Rightarrow> Fault"
  execute :: Fault

text \<open>
  Every call the CPU makes on a collaborator (the two ports, the thread context, the ISA, the
  event queue, the base CPU) is appended to a history. The collaborators are parameters of the
  model: their answers are functions of the history so far and of the arguments, so that the
  same call may be answered differently at different times.
\<close>

datatype Call =
    SendTiming Port Packet bool
  | TranslateDataReadReq Request Fault
  | TranslateDataWriteReq Request Fault
  | HandleLockedWrite Request bool
  | HandleLockedRead Request
  | SetupFetchRequest Request Fault
  | CheckForInterrupts
  | AdvancePC Fault
  | PreExecute
  | PostExecute
  | CompleteAcc Packet Fault
  | Execute Fault
  | RecordEvent string
  | EventSchedule Port Packet Tick
  | EventProcess nat

record env =
  sendTiming :: "Call list \<Rightarrow> Port \<Rightarrow> Packet \<Rightarrow> bool"
  translateDataReadReq :: "Call list \<Rightarrow> Request \<Rightarrow> Fault \<times> Request"
  translateDataWriteReq :: "Call list \<Rightarrow> Request \<Rightarrow> Fault \<times> Request"
  handleLockedWrite :: "Call list \<Rightarrow> Request \<Rightarrow> bool"
  setupFetchRequest :: "Call list \<Rightarrow> Fault \<times> Request"
  decode :: "Call list \<Rightarrow> StaticInst"
  readPC :: "Call list \<Rightarrow> Addr"
  curTick :: Tick
  nextCycle :: "Tick \<Rightarrow> Tick"
  isResponse :: "Command \<Rightarrow> bool"
  isRead :: "Command \<Rightarrow> bool"

record cpu =
  status :: Status
  ifetch_pkt :: "Packet option"
  dcache_pkt :: "Packet option"
  drainEvent :: "nat option"
  so_state :: SimState
  curStaticInst :: "StaticInst option"
  icache_tick_pkt :: "Packet option"
  dcache_tick_pkt :: "Packet option"
  previousTick :: Tick
  numCycles :: int
  cpu_id :: int
  next_id :: nat
  hist :: "Call list"

definition called :: "Call \<Rightarrow> cpu \<Rightarrow> cpu" where
  "called c s = s\<lparr>hist := hist s @ [c]\<rparr>"

text \<open>The packets handed to \<^verbatim>\<open>sendTiming\<close> on a port, oldest first, accepted or not.\<close>

fun offered :: "Port \<Rightarrow> Call list \<Rightarrow> Packet list" where
  "offered p [] = []"
| "offered p (SendTiming q pkt ok # cs) =
     (if q = p then pkt # offered p cs else offered p cs)"
| "offered p (c # cs) = offered p cs"

text \<open>The faults passed to \<^verbatim>\<open>advancePC\<close>, and the drain events signalled, oldest first.\<close>

fun advanced :: "Call list \<Rightarrow> Fault list" where
  "advanced [] = []"
| "advanced (AdvancePC f # cs) = f # advanced cs"
| "advanced (c # cs) = advanced cs"

fun signalled :: "Call list \<Rightarrow> nat list" where
  "signalled [] = []"
| "signalled (EventProcess e # cs) = e # signalled cs"
| "signalled (c # cs) = signalled cs"

text \<open>
  \<^verbatim>\<open>port.sendTiming(pkt)\<close>: the peer answers whether it accepts the packet. The Link only
  schedules future callbacks (it does not call back into the CPU before it returns).
\<close>

text \<open>
  \<^verbatim>\<open>TimingSimpleCPU::TimingSimpleCPU\<close>: the CPU as constructed, idle, holding no packet and no
  drain event, its lifecycle state \<^verbatim>\<open>SimObject::Running\<close>.
\<close>

definition TimingSimpleCPU :: "int \<Rightarrow> cpu" where
  "TimingSimpleCPU cid =
     \<lparr>status = Idle, ifetch_pkt = None, dcache_pkt = None, drainEvent = None,
      so_state = SimRunning, curStaticInst = None, icache_tick_pkt = None,
      dcache_tick_pkt = None, previousTick = 0, numCycles = 0, cpu_id = cid,
      next_id = 0, hist = []\<rparr>"

definition port_sendTiming :: "env \<Rightarrow> Port \<Rightarrow> Packet \<Rightarrow> cpu \<Rightarrow> bool \<times> cpu" where
  "port_sendTiming E p pkt s =
     (let ok = sendTiming E (hist s) p pkt in (ok, called (SendTiming p pkt ok) s))"

text \<open>
  \<^verbatim>\<open>TimingSimpleCPU::drain\<close>. Returns the number of objects still to drain with the new state.
\<close>

definition drain :: "nat \<Rightarrow> cpu \<Rightarrow> nat \<times> cpu" where
  "drain drain_event s =
     (if status s = Idle \<or> status s = Running \<or> status s = SwitchedOut
      then (0, s\<lparr>so_state := Drained\<rparr>)
      else (1, s\<lparr>so_state := Draining, drainEvent := Some drain_event\<rparr>))"

text \<open>
  The request of a data access:
  \<^verbatim>\<open>new Request(/* asid */ 0, addr, sizeof(T), flags, thread->readPC(), cpu_id, /* thread ID */ 0)\<close>.
  The physical address is filled in by the translation.
\<close>

definition new_Request :: "env \<Rightarrow> cpu \<Rightarrow> Addr \<Rightarrow> int \<Rightarrow> ReqFlag set \<Rightarrow> Request" where
  "new_Request E s a sz fl =
     \<lparr>vaddr = a, paddr = 0, req_size = sz, req_flags = fl,
      req_pc = readPC E (hist s), req_cpu = cpu_id s, req_time = curTick E\<rparr>"

text \<open>
  \<^verbatim>\<open>TimingSimpleCPU::read<T>\<close>; \<open>sz\<close> is \<^verbatim>\<open>sizeof(T)\<close>. The data buffer \<^verbatim>\<open>new T\<close> is not
  initialised by the source; it is modelled as zero bytes. The optional trace record is not
  modelled.
\<close>

definition read :: "env \<Rightarrow> Addr \<Rightarrow> int \<Rightarrow> ReqFlag set \<Rightarrow> cpu \<Rightarrow> Fault \<times> cpu" where
  "read E a sz fl s =
     (let req0 = new_Request E s a sz fl;
          (fault, rq) = translateDataReadReq E (hist s) req0;
          s0 = called (TranslateDataReadReq req0 fault) s;
          s1 = (if fault = NoFault then
                  (let pkt = new_Packet (next_id s0) rq ReadReq (replicate (nat sz) 0) (curTick E);
                       s' = s0\<lparr>next_id := Suc (next_id s0)\<rparr>;
                       (ok, s'') = port_sendTiming E DcachePort pkt s'
                   in if \<not> ok then s''\<lparr>status := DcacheRetry, dcache_pkt := Some pkt\<rparr>
                      else s''\<lparr>status := DcacheWaitResponse, dcache_pkt := None\<rparr>)
                else s0);
          s2 = (if UNCACHEABLE \<in> req_flags rq then called (RecordEvent ''Uncached Read'') s1
                else s1)
      in (fault, s2))"

text \<open>
  \<^verbatim>\<open>TimingSimpleCPU::write<T>\<close>; \<open>d\<close> holds the \<^verbatim>\<open>sizeof(T)\<close> bytes of the value
  (\<^verbatim>\<open>allocate(); set(data)\<close>). The assertion \<^verbatim>\<open>assert(dcache_pkt == NULL)\<close> aborts the run.
\<close>

definition write_cpu :: "env \<Rightarrow> bytes \<Rightarrow> Addr \<Rightarrow> ReqFlag set \<Rightarrow> cpu \<Rightarrow> error + Fault \<times> cpu" where
  "write_cpu E d a fl s =
     (let req0 = new_Request E s a (int (length d)) fl;
          (fault, rq) = translateDataWriteReq E (hist s) req0;
          s0 = called (TranslateDataWriteReq req0 fault) s
      in if fault = NoFault \<and> dcache_pkt s0 \<noteq> None
         then Inl (AssertFailed ''dcache_pkt == NULL'')
         else
          (let s1 = (if fault = NoFault then
                  (let pkt = new_Packet (next_id s0) rq WriteReq d (curTick E);
                       s' = s0\<lparr>dcache_pkt := Some pkt, next_id := Suc (next_id s0)\<rparr>;
                       (do_access, s'') =
                          (if LOCKED \<in> req_flags rq
                           then (let b = handleLockedWrite E (hist s') rq
                                 in (b, called (HandleLockedWrite rq b) s'))
                           else (True, s'))
                   in if do_access then
                        (let (ok, s3) = port_sendTiming E DcachePort pkt s''
                         in if \<not> ok then s3\<lparr>status := DcacheRetry\<rparr>
                            else s3\<lparr>status := DcacheWaitResponse, dcache_pkt := None\<rparr>)
                      else s'')
                else s0);
               s2 = (if UNCACHEABLE \<in> req_flags rq
                     then called (RecordEvent ''Uncached Write'') s1 else s1)
           in Inr (fault, s2)))"

text \<open>
  \<^verbatim>\<open>TimingSimpleCPU::fetch\<close> and \<^verbatim>\<open>TimingSimpleCPU::advanceInst\<close> call each other: a fetch
  whose request setup faults advances to the next instruction, which is fetched at once while the
  CPU is running. The source has no bound on this recursion; the model counts the nesting depth
  down and ends in \<open>OutOfFuel\<close> at 0. The instruction buffer a fetch packet points to
  (\<^verbatim>\<open>dataStatic(&inst)\<close>) is modelled as zero bytes.
\<close>

definition fetch_checkForInterrupts :: "cpu \<Rightarrow> cpu" where
  "fetch_checkForInterrupts s =
     (if (case curStaticInst s of None \<Rightarrow> True | Some i \<Rightarrow> \<not> isDelayedCommit i)
      then called CheckForInterrupts s else s)"

fun fetch :: "nat \<Rightarrow> env \<Rightarrow> cpu \<Rightarrow> error + cpu"
  and advanceInst :: "nat \<Rightarrow> env \<Rightarrow> Fault \<Rightarrow> cpu \<Rightarrow> error + cpu" where
  "fetch 0 E s = Inl OutOfFuel"
| "fetch (Suc n) E s =
     (let s0 = fetch_checkForInterrupts s;
          (fault, ifetch_req) = setupFetchRequest E (hist s0);
          s1 = called (SetupFetchRequest ifetch_req fault) s0;
          pkt = new_Packet (next_id s1) ifetch_req ReadReq
                  (replicate (nat (req_size ifetch_req)) 0) (curTick E);
          s2 = s1\<lparr>ifetch_pkt := Some pkt, next_id := Suc (next_id s1)\<rparr>;
          r = (if fault = NoFault then
                 (let (ok, s3) = port_sendTiming E IcachePort pkt s2
                  in if \<not> ok then Inr (s3\<lparr>status := IcacheRetry\<rparr>)
                     else Inr (s3\<lparr>status := IcacheWaitResponse, ifetch_pkt := None\<rparr>))
               else advanceInst n E fault s2)
      in case r of
           Inl e \<Rightarrow> Inl e
         | Inr s4 \<Rightarrow>
             Inr (s4\<lparr>numCycles := numCycles s4 + (curTick E - previousTick s4),
                     previousTick := curTick E\<rparr>))"
| "advanceInst n E fault s =
     (let s1 = called (AdvancePC fault) s
      in if status s1 = Running then fetch n E s1 else Inr s1)"

text \<open>\<^verbatim>\<open>TimingSimpleCPU::completeDrain\<close>; a NULL \<^verbatim>\<open>drainEvent\<close> cannot be processed.\<close>

definition completeDrain :: "cpu \<Rightarrow> error + cpu" where
  "completeDrain s =
     (let s1 = s\<lparr>so_state := Drained\<rparr>
      in case drainEvent s1 of
           None \<Rightarrow> Inl (NullPointer ''drainEvent'')
         | Some e \<Rightarrow> Inr (called (EventProcess e) s1))"

definition initiateAcc_on :: "env \<Rightarrow> StaticInst \<Rightarrow> cpu \<Rightarrow> error + Fault \<times> cpu" where
  "initiateAcc_on E inst s =
     (case initiateAcc inst of
        MemRead a sz fl \<Rightarrow> Inr (read E a sz fl s)
      | MemWrite d a fl \<Rightarrow> write_cpu E d a fl s
      | MemNone f \<Rightarrow> Inr (f, s))"

text \<open>\<^verbatim>\<open>TimingSimpleCPU::completeIfetch\<close>.\<close>

definition completeIfetch :: "nat \<Rightarrow> env \<Rightarrow> Packet \<Rightarrow> cpu \<Rightarrow> error + cpu" where
  "completeIfetch n E pkt s =
     (if result pkt \<noteq> Success then Inl (AssertFailed ''pkt->result == Packet::Success'')
      else if status s \<noteq> IcacheWaitResponse
      then Inl (AssertFailed ''_status == IcacheWaitResponse'')
      else
       (let s1 = s\<lparr>status := Running,
                   numCycles := numCycles s + (curTick E - previousTick s),
                   previousTick := curTick E\<rparr>
        in if so_state s1 = Draining then completeDrain s1
           else
            (let inst = decode E (hist s1);
                 s2 = (called PreExecute s1)\<lparr>curStaticInst := Some inst\<rparr>
             in if isMemRef inst \<and> \<not> isDataPrefetch inst then
                  (case initiateAcc_on E inst s2 of
                     Inl e \<Rightarrow> Inl e
                   | Inr (fault, s3) \<Rightarrow>
                       if status s3 \<noteq> Running then
                         (if \<not> (status s3 = DcacheWaitResponse \<or> status s3 = DcacheRetry)
                          then Inl (AssertFailed
                                 ''_status == DcacheWaitResponse || _status == DcacheRetry'')
                          else if fault \<noteq> NoFault
                          then Inl (AssertFailed ''fault == NoFault'')
                          else Inr s3)
                       else if fault = NoFault then
                         (case dcache_pkt s3 of
                            None \<Rightarrow> Inl (AssertFailed ''dcache_pkt != NULL'')
                          | Some dp \<Rightarrow>
                              (let fault' = completeAcc inst dp;
                                   s4 = (called (CompleteAcc dp fault') s3)\<lparr>dcache_pkt := None\<rparr>
                               in advanceInst n E fault' (called PostExecute s4)))
                       else advanceInst n E fault (called PostExecute s3))
                else
                  (let fault = execute inst;
                       s3 = called PostExecute (called (Execute fault) s2)
                   in advanceInst n E fault s3))))"

text \<open>\<^verbatim>\<open>TimingSimpleCPU::completeDataAccess\<close>.\<close>

definition completeDataAccess :: "nat \<Rightarrow> env \<Rightarrow> Packet \<Rightarrow> cpu \<Rightarrow> error + cpu" where
  "completeDataAccess n E pkt s =
     (if result pkt \<noteq> Success then Inl (AssertFailed ''pkt->result == Packet::Success'')
      else if status s \<noteq> DcacheWaitResponse
      then Inl (AssertFailed ''_status == DcacheWaitResponse'')
      else
       (let s1 = s\<lparr>status := Running,
                   numCycles := numCycles s + (curTick E - previousTick s),
                   previousTick := curTick E\<rparr>
        in case curStaticInst s1 of
             None \<Rightarrow> Inl (NullPointer ''curStaticInst'')
           | Some inst \<Rightarrow>
               (let fault = completeAcc inst pkt;
                    s2 = called (CompleteAcc pkt fault) s1;
                    s3 = (if isRead E (cmd pkt) \<and> LOCKED \<in> req_flags (req pkt)
                          then called (HandleLockedRead (req pkt)) s2 else s2);
                    s4 = called PostExecute s3
                in if so_state s4 = Draining
                   then completeDrain (called (AdvancePC fault) s4)
                   else advanceInst n E fault s4)))"

text \<open>
  \<^verbatim>\<open>IcachePort::recvTiming\<close> and \<^verbatim>\<open>DcachePort::recvTiming\<close>. A response is completed now when
  the next CPU clock edge is the current tick, and otherwise handed to the port's tick event
  (\<^verbatim>\<open>TickEvent::schedule\<close> stores the packet and schedules the event).
\<close>

definition icache_recvTiming :: "nat \<Rightarrow> env \<Rightarrow> Packet \<Rightarrow> cpu \<Rightarrow> error + bool \<times> cpu" where
  "icache_recvTiming n E pkt s =
     (if isResponse E (cmd pkt) then
        (let mem_time = req_time (req pkt);
             next_tick = nextCycle E mem_time
         in if next_tick = curTick E then
              (case completeIfetch n E pkt s of
                 Inl e \<Rightarrow> Inl e
               | Inr s' \<Rightarrow> Inr (True, s'))
            else
              Inr (True, called (EventSchedule IcachePort pkt next_tick)
                           (s\<lparr>icache_tick_pkt := Some pkt\<rparr>)))
      else Inr (True, s))"

definition dcache_recvTiming :: "nat \<Rightarrow> env \<Rightarrow> Packet \<Rightarrow> cpu \<Rightarrow> error + bool \<times> cpu" where
  "dcache_recvTiming n E pkt s =
     (if isResponse E (cmd pkt) then
        (let mem_time = req_time (req pkt);
             next_tick = nextCycle E mem_time
         in if next_tick = curTick E then
              (case completeDataAccess n E pkt s of
                 Inl e \<Rightarrow> Inl e
               | Inr s' \<Rightarrow> Inr (True, s'))
            else
              Inr (True, called (EventSchedule DcachePort pkt next_tick)
                           (s\<lparr>dcache_tick_pkt := Some pkt\<rparr>)))
      else Inr (True, s))"

text \<open>\<^verbatim>\<open>IcachePort::recvRetry\<close> and \<^verbatim>\<open>DcachePort::recvRetry\<close>.\<close>

definition icache_recvRetry :: "env \<Rightarrow> cpu \<Rightarrow> error + cpu" where
  "icache_recvRetry E s =
     (case ifetch_pkt s of
        None \<Rightarrow> Inl (AssertFailed ''cpu->ifetch_pkt != NULL'')
      | Some tmp \<Rightarrow>
          if status s \<noteq> IcacheRetry then Inl (AssertFailed ''cpu->_status == IcacheRetry'')
          else
            (let (ok, s1) = port_sendTiming E IcachePort tmp s
             in if ok then Inr (s1\<lparr>status := IcacheWaitResponse, ifetch_pkt := None\<rparr>)
                else Inr s1))"

definition dcache_recvRetry :: "env \<Rightarrow> cpu \<Rightarrow> error + cpu" where
  "dcache_recvRetry E s =
     (case dcache_pkt s of
        None \<Rightarrow> Inl (AssertFailed ''cpu->dcache_pkt != NULL'')
      | Some tmp \<Rightarrow>
          if status s \<noteq> DcacheRetry then Inl (AssertFailed ''cpu->_status == DcacheRetry'')
          else
            (let (ok, s1) = port_sendTiming E DcachePort tmp s
             in if ok then Inr (s1\<lparr>status := DcacheWaitResponse, dcache_pkt := None\<rparr>)
                else Inr s1))"

section \<open>The cache\<close>

text \<open>
  \<^verbatim>\<open>Cache<TagStore,Buffering,Coherence>\<close> of \<^verbatim>\<open>src/mem/cache/cache_impl.hh\<close>. The tag store, the
  miss queue, the coherence engine and the prefetcher are template parameters whose code is not
  part of the sources at hand, and so are the packet's command attributes and the base cache's
  \<^verbatim>\<open>respond\<close> and \<^verbatim>\<open>respondToSnoop\<close>. They are parameters of the model: every call on
  them is appended to a history, and what they return is a function of the history so far and of
  the arguments. A collaborator that is handed the packet, and after which the source goes on
  using the packet, returns the packet as it leaves it.
\<close>

datatype BlkBit = BlkValid | BlkWritable | OtherBlkBit nat

type_synonym BlkState = "BlkBit set"

record Blk =
  blk_id :: nat
  blk_status :: BlkState
  blk_data :: bytes

text \<open>
  A miss entry as \<^verbatim>\<open>cache_impl.hh\<close> reads it: whether its request is in service, the packet
  of the request in flight, and the target packets waiting on it.
\<close>

record MSHR =
  mshr_id :: nat
  inService :: bool
  mshr_pkt :: Packet
  targets :: "Packet list"

datatype Side = CpuSide | MemSide

datatype CCall =
    PrefetcherHandleMiss Packet Tick
  | TagsHandleAccess Packet bool
  | TagsHandleFill "Blk option" Packet BlkState "Packet option"
  | TagsHandleFillMSHR "Blk option" nat BlkState Packet
  | TagsHandleSnoop "Blk option" BlkState "Packet option"
  | DoWriteback Packet
  | Respond Packet Tick
  | RespondToSnoop Packet Tick
  | MQHandleMiss Packet int Tick
  | MQHandleResponse Packet Tick
  | MarkInService Packet MSHR
  | AddTarget MSHR Packet
  | RestoreMSHRPkt nat Packet
  | PropogateInvalidate Packet bool
  | HandleBusRequest Packet "Blk option" "MSHR option"
  | SendFunctional Side Packet
  | SendAtomic Packet
  | FixPacket Packet Packet
  | Warn string
  | ExitSimLoop string

record cenv =
  cmd_isRead :: "Command \<Rightarrow> bool"
  cmd_isWrite :: "Command \<Rightarrow> bool"
  cmd_isInvalidate :: "Command \<Rightarrow> bool"
  cmd_needsResponse :: "Command \<Rightarrow> bool"
  cur_tick :: Tick
  hasProtocol :: bool
  allowFastWrites :: bool
  propogateInvalidate :: "CCall list \<Rightarrow> Packet \<Rightarrow> bool \<Rightarrow> Packet"
  findBlock :: "CCall list \<Rightarrow> Packet \<Rightarrow> Blk option"
  findMSHR :: "CCall list \<Rightarrow> Addr \<Rightarrow> MSHR option"
  findWrites :: "CCall list \<Rightarrow> Addr \<Rightarrow> bool \<times> MSHR list"
  tags_handleAccess ::
    "CCall list \<Rightarrow> Packet \<Rightarrow> bool \<Rightarrow> Blk option \<times> int \<times> Packet list \<times> Packet"
  tags_handleFill ::
    "CCall list \<Rightarrow> Blk option \<Rightarrow> Packet \<Rightarrow> BlkState \<Rightarrow> Packet option
       \<Rightarrow> Blk option \<times> Packet list \<times> Packet"
  tags_handleFill_mshr ::
    "CCall list \<Rightarrow> Blk option \<Rightarrow> nat \<Rightarrow> BlkState \<Rightarrow> Packet
       \<Rightarrow> Blk option \<times> Packet list \<times> Packet"
  tags_handleSnoop :: "CCall list \<Rightarrow> Blk option \<Rightarrow> BlkState \<Rightarrow> Packet \<Rightarrow> Packet"
  handleBusRequest ::
    "CCall list \<Rightarrow> Packet \<Rightarrow> Blk option \<Rightarrow> MSHR option \<Rightarrow> bool \<times> BlkState \<times> Packet"
  getNewState :: "CCall list \<Rightarrow> Packet \<Rightarrow> BlkState \<Rightarrow> BlkState"
  getBusCmd :: "CCall list \<Rightarrow> Command \<Rightarrow> BlkState \<Rightarrow> Command"
  respond :: "CCall list \<Rightarrow> Packet \<Rightarrow> Tick \<Rightarrow> Packet"
  respondToSnoop :: "CCall list \<Rightarrow> Packet \<Rightarrow> Tick \<Rightarrow> Packet"
  prefetcher_handleMiss :: "CCall list \<Rightarrow> Packet \<Rightarrow> Tick \<Rightarrow> Packet"
  sendFunctional :: "CCall list \<Rightarrow> Side \<Rightarrow> Packet \<Rightarrow> Packet"
  sendAtomic :: "CCall list \<Rightarrow> Packet \<Rightarrow> Tick \<times> Packet"
  makeAtomicResponse :: "Packet \<Rightarrow> Packet"
  intersect :: "Packet \<Rightarrow> Packet \<Rightarrow> bool"
  fixPacket :: "Packet \<Rightarrow> Packet \<Rightarrow> Packet"

text \<open>
  The members of the cache that \<^verbatim>\<open>cache_impl.hh\<close> reads or writes; \<open>invalidatePkt\<close> is the
  cache's own invalidate packet, made by the constructor.
\<close>

record cache =
  blkSize :: int
  hitLatency :: int
  prefetchAccess :: bool
  invalidatePkt :: Packet
  fastWrites :: nat
  missCount :: int
  hits :: "Command \<Rightarrow> nat"
  misses :: "Command \<Rightarrow> nat"
  cnext_id :: nat
  chist :: "CCall list"

definition ccalled :: "CCall \<Rightarrow> cache \<Rightarrow> cache" where
  "ccalled x c = c\<lparr>chist := chist c @ [x]\<rparr>"

text \<open>\<^verbatim>\<open>while (!writebacks.empty()) { missQueue->doWriteback(writebacks.front()); ... }\<close>\<close>

fun doWritebacks :: "Packet list \<Rightarrow> cache \<Rightarrow> cache" where
  "doWritebacks [] c = c"
| "doWritebacks (w # ws) c = doWritebacks ws (ccalled (DoWriteback w) c)"

text \<open>
  The lookup at the head of \<^verbatim>\<open>Cache::access\<close>: the prefetcher is told when prefetches are
  determined on the access stream, and the tag store is asked unless the request is uncacheable.
  Yields the block, the latency, the writebacks, the size to hand to the miss queue and the
  packet.
\<close>

definition access_lookup ::
  "cenv \<Rightarrow> Packet \<Rightarrow> cache \<Rightarrow> (Blk option \<times> int \<times> Packet list \<times> int \<times> Packet) \<times> cache" where
  "access_lookup E pkt c =
     (let (pkt1, c1) =
            (if prefetchAccess c
             then (prefetcher_handleMiss E (chist c) pkt (cur_tick E),
                   ccalled (PrefetcherHandleMiss pkt (cur_tick E)) c)
             else (pkt, c))
      in if UNCACHEABLE \<notin> req_flags (req pkt1)
         then (let (blk, lat, writebacks, pkt2) = tags_handleAccess E (chist c1) pkt1 True
               in ((blk, lat, writebacks, blkSize c1, pkt2),
                   ccalled (TagsHandleAccess pkt1 True) c1))
         else ((None, hitLatency c1, [], pkt_size pkt1, pkt1), c1))"

text \<open>
  The fast write allocate of \<^verbatim>\<open>Cache::access\<close>, for a write of at least a block that
  found no block, when the coherence protocol allows it.
\<close>

definition access_fastWrite ::
  "cenv \<Rightarrow> Blk option \<Rightarrow> Packet list \<Rightarrow> Packet \<Rightarrow> cache
     \<Rightarrow> (Blk option \<times> Packet list \<times> Packet) \<times> cache" where
  "access_fastWrite E blk writebacks pkt c =
     (if blk = None \<and> pkt_size pkt \<ge> blkSize c \<and> allowFastWrites E \<and>
         (cmd pkt = WriteReq \<or> cmd pkt = WriteInvalidateReq)
      then
        (let outstanding_miss = findMSHR E (chist c) (addr pkt)
         in if cmd pkt = WriteInvalidateReq \<or> outstanding_miss = None
            then
              (let c1 = (if outstanding_miss \<noteq> None
                         then ccalled (Warn (''WriteInv doing a fastallocate'' @
                                ''with an outstanding miss to the same address'')) c
                         else c);
                   (blk', wbs, pkt') =
                      tags_handleFill E (chist c1) None pkt {BlkValid, BlkWritable} None;
                   c2 = ccalled (TagsHandleFill None pkt {BlkValid, BlkWritable} None) c1
               in ((blk', writebacks @ wbs, pkt'), c2\<lparr>fastWrites := Suc (fastWrites c2)\<rparr>))
            else ((blk, writebacks, pkt), c))
      else ((blk, writebacks, pkt), c))"

text \<open>\<^verbatim>\<open>Cache::access\<close>; it returns true on every path.\<close>

definition access :: "cenv \<Rightarrow> Packet \<Rightarrow> cache \<Rightarrow> bool \<times> Packet \<times> cache" where
  "access E pkt c =
     (let ((blk0, lat, writebacks0, size, pkt1), c1) = access_lookup E pkt c;
          ((blk, writebacks, pkt2), c2) = access_fastWrite E blk0 writebacks0 pkt1 c1;
          c3 = doWritebacks writebacks c2
      in if blk \<noteq> None then
           (let c4 = c3\<lparr>hits := (hits c3)(cmd pkt2 := Suc (hits c3 (cmd pkt2)))\<rparr>;
                (pkt3, c5) =
                   (if cmd_needsResponse E (cmd pkt2)
                    then (respond E (chist c4) pkt2 (cur_tick E + lat),
                          ccalled (Respond pkt2 (cur_tick E + lat)) c4)
                    else (pkt2, c4));
                pkt4 = (if cmd pkt3 = Writeback
                        then pkt3\<lparr>flags := insert SATISFIED (flags pkt3)\<rparr> else pkt3)
            in (True, pkt4, c5))
         else
           (let c4 = (if UNCACHEABLE \<notin> req_flags (req pkt2) then
                        (let c' = c3\<lparr>misses := (misses c3)(cmd pkt2 := Suc (misses c3 (cmd pkt2)))\<rparr>
                         in if missCount c' \<noteq> 0 then
                              (let c'' = c'\<lparr>missCount := missCount c' - 1\<rparr>
                               in if missCount c'' = 0
                                  then ccalled (ExitSimLoop
                                         ''A cache reached the maximum miss count'') c''
                                  else c'')
                            else c')
                      else c3)
            in if SATISFIED \<in> flags pkt2 then
                 (if cmd_needsResponse E (cmd pkt2)
                  then (True, respond E (chist c4) pkt2 (cur_tick E + lat),
                        ccalled (Respond pkt2 (cur_tick E + lat)) c4)
                  else (True, pkt2, c4))
               else
                 (True, pkt2, ccalled (MQHandleMiss pkt2 size (cur_tick E + hitLatency c4)) c4)))"

text \<open>
  \<^verbatim>\<open>Cache::handleResponse\<close>. With a sender state, the temporary copy held by the miss entry is
  deleted and the entry is given the packet back, before anything else.
\<close>

definition handleResponse :: "cenv \<Rightarrow> Packet \<Rightarrow> cache \<Rightarrow> Packet \<times> cache" where
  "handleResponse E pkt c =
     (case senderState pkt of
        None \<Rightarrow> (pkt, c)
      | Some m \<Rightarrow>
          (let c1 = ccalled (RestoreMSHRPkt m pkt) c
           in if result pkt = Nacked
              then (pkt, ccalled (Warn (''NACKs from devices not connected to the same bus '' @
                                        ''not implemented'')) c1)
              else
               (let (pkt2, c2) =
                      (if CACHE_LINE_FILL \<in> flags pkt \<and> NO_ALLOCATE \<notin> flags pkt then
                         (let blk = findBlock E (chist c1) pkt;
                              old_state = (case blk of None \<Rightarrow> {} | Some b \<Rightarrow> blk_status b);
                              new_state = getNewState E (chist c1) pkt old_state;
                              (blk', writebacks, pkt') =
                                 tags_handleFill_mshr E (chist c1) blk m new_state pkt;
                              c' = ccalled (TagsHandleFillMSHR blk m new_state pkt) c1
                          in (pkt', doWritebacks writebacks c'))
                       else (pkt, c1))
                in (pkt2, ccalled (MQHandleResponse pkt2 (cur_tick E + hitLatency c2)) c2))))"

text \<open>\<^verbatim>\<open>Cache::snoopResponse\<close>: \<^verbatim>\<open>assert(0)\<close> on a packet flagged as NACKed.\<close>

definition snoopResponse :: "cenv \<Rightarrow> Packet \<Rightarrow> cache \<Rightarrow> error + cache" where
  "snoopResponse E pkt c =
     (if NACKED_LINE \<in> flags pkt then Inl (AssertFailed ''0'') else Inr c)"

text \<open>
  \<^verbatim>\<open>Cache::snoop\<close>, in the order of the source. First the part for a miss entry of the line
  that is in service; \<open>None\<close> when the snoop goes on to the writeback buffers.
\<close>

definition snoop_inService ::
  "cenv \<Rightarrow> Packet \<Rightarrow> MSHR option \<Rightarrow> cache \<Rightarrow> (error + Packet \<times> cache) option" where
  "snoop_inService E pkt mshr c =
     (case mshr of
        None \<Rightarrow> None
      | Some m \<Rightarrow>
          if inService m then
            (if (cmd_isInvalidate E (cmd (mshr_pkt m)) \<or> CACHE_LINE_FILL \<notin> flags (mshr_pkt m))
                \<and> (cmd pkt \<noteq> InvalidateReq \<and> cmd pkt \<noteq> WriteInvalidateReq)
             then
               (if SATISFIED \<in> flags pkt
                then Some (Inl (AssertFailed ''!(pkt->flags & SATISFIED)''))
                else Some (Inr (pkt\<lparr>flags := insert NACKED_LINE (insert SATISFIED (flags pkt))\<rparr>,
                                c)))
             else
               (let inv = (invalidatePkt c)\<lparr>addr := addr pkt\<rparr>
                in Some (Inr (pkt, ccalled (AddTarget m inv) (c\<lparr>invalidatePkt := inv\<rparr>)))))
          else None)"

text \<open>
  The body of the loop over the writeback entries of the line, for an entry \<open>w\<close> whose request
  is cacheable: a read snoop is supplied with the entry's data, an invalidating snoop marks the
  entry in service. The \<^verbatim>\<open>memcpy\<close> reads \<^verbatim>\<open>pkt->getSize()\<close> bytes of the entry's data from
  the offset in the line and writes them to the head of the snoop's buffer; a buffer that is too
  short for that is an out-of-bounds access.
\<close>

definition snoop_supply :: "cenv \<Rightarrow> Packet \<Rightarrow> MSHR \<Rightarrow> cache \<Rightarrow> error + Packet \<times> cache" where
  "snoop_supply E pkt w c =
     (let r =
        (if cmd_isRead E (cmd pkt) then
           (if SATISFIED \<in> flags pkt then Inl (AssertFailed ''!(pkt->flags & SATISFIED)'')
            else
              (let pkt1 = pkt\<lparr>flags := insert SHARED_LINE (insert SATISFIED (flags pkt))\<rparr>;
                   offset = addr pkt1 AND word_of_int (blkSize c - 1);
                   n = nat (pkt_size pkt1)
               in if \<not> offset < word_of_int (blkSize c)
                  then Inl (AssertFailed ''offset < blkSize'')
                  else if \<not> pkt_size pkt1 \<le> blkSize c
                  then Inl (AssertFailed ''pkt->getSize() <= blkSize'')
                  else if \<not> offset + word_of_int (pkt_size pkt1) \<le> word_of_int (blkSize c)
                  then Inl (AssertFailed ''offset + pkt->getSize() <=blkSize'')
                  else if length (pkt_data (mshr_pkt w)) < unat offset + n
                          \<or> length (pkt_data pkt1) < n
                  then Inl (OutOfBounds ''memcpy'')
                  else
                    (let pkt2 = pkt1\<lparr>pkt_data :=
                                  take n (drop (unat offset) (pkt_data (mshr_pkt w)))
                                    @ drop n (pkt_data pkt1)\<rparr>;
                         t = cur_tick E + hitLatency c
                     in Inr (respondToSnoop E (chist c) pkt2 t,
                             ccalled (RespondToSnoop pkt2 t) c))))
         else Inr (pkt, c))
      in case r of
           Inl e \<Rightarrow> Inl e
         | Inr (pkt3, c3) \<Rightarrow>
             if cmd_isInvalidate E (cmd pkt3)
             then Inr (pkt3, ccalled (MarkInService (mshr_pkt w) w) c3)
             else Inr (pkt3, c3))"

text \<open>
  The loop over the writeback entries. It returns from \<^verbatim>\<open>snoop\<close> at the first entry whose
  request is cacheable (\<open>Inl\<close>); otherwise it ends with the variable \<^verbatim>\<open>mshr\<close> pointing to the
  last entry it looked at (\<open>Inr\<close>).
\<close>

fun snoop_writebacks ::
  "cenv \<Rightarrow> Packet \<Rightarrow> cache \<Rightarrow> MSHR list \<Rightarrow> MSHR option
     \<Rightarrow> (error + Packet \<times> cache) + MSHR option" where
  "snoop_writebacks E pkt c [] mshr = Inr mshr"
| "snoop_writebacks E pkt c (w # ws) mshr =
     (if UNCACHEABLE \<notin> req_flags (req (mshr_pkt w))
      then Inl (snoop_supply E pkt w c)
      else snoop_writebacks E pkt c ws (Some w))"

text \<open>The end of \<^verbatim>\<open>Cache::snoop\<close>: the coherence engine handles the bus request.\<close>

definition snoop_busRequest ::
  "cenv \<Rightarrow> Packet \<Rightarrow> Blk option \<Rightarrow> MSHR option \<Rightarrow> cache \<Rightarrow> Packet \<times> cache" where
  "snoop_busRequest E pkt blk mshr c =
     (let (satisfy, new_state, pkt1) = handleBusRequest E (chist c) pkt blk mshr;
          c1 = ccalled (HandleBusRequest pkt blk mshr) c
      in if satisfy then
           (let pkt2 = tags_handleSnoop E (chist c1) blk new_state pkt1;
                c2 = ccalled (TagsHandleSnoop blk new_state (Some pkt1)) c1;
                t = cur_tick E + hitLatency c2
            in (respondToSnoop E (chist c2) pkt2 t, ccalled (RespondToSnoop pkt2 t) c2))
         else (pkt1, ccalled (TagsHandleSnoop blk new_state None) c1))"

definition snoop :: "cenv \<Rightarrow> Packet \<Rightarrow> cache \<Rightarrow> error + Packet \<times> cache" where
  "snoop E pkt c =
     (if UNCACHEABLE \<in> req_flags (req pkt) then Inr (pkt, c)
      else
       (let pkt1 = propogateInvalidate E (chist c) pkt True;
            c1 = ccalled (PropogateInvalidate pkt True) c;
            blk_addr = addr pkt1 AND NOT (word_of_int (blkSize c1 - 1));
            blk = findBlock E (chist c1) pkt1;
            mshr = findMSHR E (chist c1) blk_addr
        in if hasProtocol E \<or> cmd_isInvalidate E (cmd pkt1) then
             (case snoop_inService E pkt1 mshr c1 of
                Some r \<Rightarrow> r
              | None \<Rightarrow>
                  (let (found, writebacks) = findWrites E (chist c1) blk_addr
                   in if found then
                        (case snoop_writebacks E pkt1 c1 writebacks mshr of
                           Inl r \<Rightarrow> r
                         | Inr mshr' \<Rightarrow> Inr (snoop_busRequest E pkt1 blk mshr' c1))
                      else Inr (snoop_busRequest E pkt1 blk mshr c1)))
           else Inr (snoop_busRequest E pkt1 blk mshr c1)))"

text \<open>
  The fix-up loops of the functional \<^verbatim>\<open>Cache::probe\<close>: each packet of the list that
  intersects the probed packet fixes it up (\<^verbatim>\<open>fixPacket(pkt, target)\<close>), in list order, the
  next test seeing the packet as the previous fix-up left it. \<^verbatim>\<open>fixPacket\<close> may also write
  into the pending packet; that is recorded in the history.
\<close>

fun probe_fix :: "cenv \<Rightarrow> Packet list \<Rightarrow> Packet \<times> cache \<Rightarrow> Packet \<times> cache" where
  "probe_fix E [] pc = pc"
| "probe_fix E (t # ts) (pkt, c) =
     probe_fix E ts
       (if intersect E t pkt then (fixPacket E pkt t, ccalled (FixPacket pkt t) c) else (pkt, c))"







text \<open>
  \<^verbatim>\<open>Cache::Cache\<close>: the members as constructed, with the cache's own invalidate packet
  (\<^verbatim>\<open>new Request((Addr) NULL, blkSize, 0)\<close>, \<^verbatim>\<open>new Packet(invalidateReq, InvalidateReq, 0)\<close>).
\<close>

definition Cache :: "int \<Rightarrow> int \<Rightarrow> bool \<Rightarrow> int \<Rightarrow> cache" where
  "Cache bs hl pa mc =
     \<lparr>blkSize = bs, hitLatency = hl, prefetchAccess = pa,
      invalidatePkt =
        new_Packet 0 \<lparr>vaddr = 0, paddr = 0, req_size = bs, req_flags = {}, req_pc = 0,
                       req_cpu = 0, req_time = 0\<rparr> InvalidateReq [] 0,
      fastWrites = 0, missCount = mc, hits = (\<lambda>c. 0), misses = (\<lambda>c. 0),
      cnext_id = 1, chist = []\<rparr>"

section \<open>A concrete environment\<close>

text \<open>
  A small environment on which the theorems below are exercised. The peer of each port rejects
  the first packet offered on it and accepts every later one; data translation faults at
  virtual address 0 and is the identity elsewhere; the first fetch-request setup faults and the
  ones after the fault handler has been entered succeed; the next clock edge of the CPU is the
  tick asked for; the only response command is \<open>OtherCmd 1\<close>.
\<close>

definition test_Request :: Request where
  "test_Request =
     \<lparr>vaddr = 64, paddr = 64, req_size = 4, req_flags = {}, req_pc = 64, req_cpu = 0,
      req_time = 0\<rparr>"

definition test_inst :: StaticInst where
  "test_inst =
     \<lparr>isDelayedCommit = False, isMemRef = False, isDataPrefetch = False,
      initiateAcc = MemNone NoFault, completeAcc = (\<lambda>p. NoFault), execute = NoFault\<rparr>"

definition test_env :: env where
  "test_env =
     \<lparr>sendTiming = (\<lambda>h p pkt. offered p h \<noteq> []),
      translateDataReadReq =
        (\<lambda>h r. (if vaddr r = 0 then FaultValue 1 else NoFault, r\<lparr>paddr := vaddr r\<rparr>)),
      translateDataWriteReq =
        (\<lambda>h r. (if vaddr r = 0 then FaultValue 1 else NoFault, r\<lparr>paddr := vaddr r\<rparr>)),
      handleLockedWrite = (\<lambda>h r. True),
      setupFetchRequest =
        (\<lambda>h. (if advanced h = [] then FaultValue 2 else NoFault, test_Request)),
      decode = (\<lambda>h. test_inst),
      readPC = (\<lambda>h. 64),
      curTick = 0,
      nextCycle = (\<lambda>t. t),
      isResponse = (\<lambda>c. c = OtherCmd 1),
      isRead = (\<lambda>c. c = ReadReq \<or> c = OtherCmd 1)\<rparr>"

text \<open>
  For the cache: a line of four bytes at address 64; a miss entry \<open>wb_mshr\<close> in service whose
  request is a writeback of that line (not a cache fill) with one write waiting on it; a miss
  entry \<open>fill_mshr\<close> in service whose request is a pending fill; and collaborators that find
  no block, find \<open>wb_mshr\<close> for line 64, allocate on a fill, leave the packet as it is, answer a
  functional send with success, take two packets to intersect when their address ranges overlap
  and fix a probed packet up by copying the pending packet's bytes and marking it successful. In
  \<open>test_cenv_wb\<close> the writeback of \<open>wb_mshr\<close> is also in the write buffer of the line,
  followed by the writeback \<open>far_mshr\<close> of the four bytes at address 128.
\<close>

definition line_Request :: Request where
  "line_Request =
     \<lparr>vaddr = 64, paddr = 64, req_size = 4, req_flags = {}, req_pc = 0, req_cpu = 1,
      req_time = 0\<rparr>"

definition wb_mshr :: MSHR where
  "wb_mshr =
     \<lparr>mshr_id = 3, inService = True,
      mshr_pkt = new_Packet 5 line_Request Writeback [1, 2, 3, 4] 0,
      targets = [new_Packet 6 line_Request WriteReq [9, 9, 9, 9] 0]\<rparr>"

definition fill_mshr :: MSHR where
  "fill_mshr =
     \<lparr>mshr_id = 4, inService = True,
      mshr_pkt = (new_Packet 7 line_Request ReadReq [0, 0, 0, 0] 0)\<lparr>flags := {CACHE_LINE_FILL}\<rparr>,
      targets = [new_Packet 8 line_Request ReadReq [0, 0, 0, 0] 0]\<rparr>"

definition test_cenv :: cenv where
  "test_cenv =
     \<lparr>cmd_isRead = (\<lambda>c. c = ReadReq \<or> c = HardPFReq),
      cmd_isWrite = (\<lambda>c. c = WriteReq \<or> c = WriteInvalidateReq \<or> c = Writeback),
      cmd_isInvalidate = (\<lambda>c. c = InvalidateReq \<or> c = WriteInvalidateReq \<or> c = UpgradeReq),
      cmd_needsResponse = (\<lambda>c. c = ReadReq \<or> c = WriteReq \<or> c = WriteInvalidateReq),
      cur_tick = 0,
      hasProtocol = True,
      allowFastWrites = True,
      propogateInvalidate = (\<lambda>h p t. p),
      findBlock = (\<lambda>h p. None),
      findMSHR = (\<lambda>h a. if a = 64 then Some wb_mshr else None),
      findWrites = (\<lambda>h a. (False, [])),
      tags_handleAccess = (\<lambda>h p u. (None, 1, [], p)),
      tags_handleFill =
        (\<lambda>h b p st t. (Some \<lparr>blk_id = 0, blk_status = st, blk_data = pkt_data p\<rparr>, [],
                       case t of None \<Rightarrow> p | Some q \<Rightarrow> q)),
      tags_handleFill_mshr = (\<lambda>h b m st p. (b, [], p)),
      tags_handleSnoop = (\<lambda>h b st p. p),
      handleBusRequest = (\<lambda>h p b m. (False, {}, p)),
      getNewState = (\<lambda>h p st. st),
      getBusCmd = (\<lambda>h c st. c),
      respond = (\<lambda>h p t. p),
      respondToSnoop = (\<lambda>h p t. p),
      prefetcher_handleMiss = (\<lambda>h p t. p),
      sendFunctional = (\<lambda>h sd p. p\<lparr>result := Success\<rparr>),
      sendAtomic = (\<lambda>h p. (1, p)),
      makeAtomicResponse = (\<lambda>p. p),
      intersect = (\<lambda>t p. unat (addr p) < unat (addr t) + nat (pkt_size t) \<and>
                         unat (addr t) < unat (addr p) + nat (pkt_size p)),
      fixPacket = (\<lambda>p t. p\<lparr>pkt_data := pkt_data t, result := Success\<rparr>)\<rparr>"





section \<open>Properties of the timing CPU\<close>

lemma replicate_4: "replicate 4 x = [x, x, x, x]"
  by (simp add: eval_nat_numeral)

lemma offered_append [simp]: "offered p (xs @ ys) = offered p xs @ offered p ys"
  by (induction p xs rule: offered.induct) auto

lemma advanced_append [simp]: "advanced (xs @ ys) = advanced xs @ advanced ys"
  by (induction xs rule: advanced.induct) auto

lemma signalled_append [simp]: "signalled (xs @ ys) = signalled xs @ signalled ys"
  by (induction xs rule: signalled.induct) auto

lemma called_simps [simp]:
  "hist (called c s) = hist s @ [c]"
  "status (called c s) = status s"
  "ifetch_pkt (called c s) = ifetch_pkt s"
  "dcache_pkt (called c s) = dcache_pkt s"
  "drainEvent (called c s) = drainEvent s"
  "so_state (called c s) = so_state s"
  "curStaticInst (called c s) = curStaticInst s"
  "next_id (called c s) = next_id s"
  by (simp_all add: called_def)

text \<open>
  C3. A retry callback on the instruction or data port, with the CPU in the matching Retry state
  and holding the rejected packet \<open>p\<close>, does not fail an assertion and offers exactly \<open>p\<close>
  (the same object) on that port and nothing on the other one. If the peer accepts, the CPU is in
  the matching WaitResponse state and holds no packet; if the peer rejects again, the CPU is still
  in the Retry state holding \<open>p\<close>, so that the next retry offers \<open>p\<close> again.
\<close>

theorem recvRetry_reoffers:
  "(status s = IcacheRetry \<and> ifetch_pkt s = Some p \<longrightarrow>
      (case icache_recvRetry E s of
         Inl e \<Rightarrow> False
       | Inr s' \<Rightarrow>
         offered IcachePort (hist s') = offered IcachePort (hist s) @ [p] \<and>
         offered DcachePort (hist s') = offered DcachePort (hist s) \<and>
         dcache_pkt s' = dcache_pkt s \<and>
         (if sendTiming E (hist s) IcachePort p
          then status s' = IcacheWaitResponse \<and> ifetch_pkt s' = None
          else status s' = IcacheRetry \<and> ifetch_pkt s' = Some p)))
   \<and> (status s = DcacheRetry \<and> dcache_pkt s = Some p \<longrightarrow>
      (case dcache_recvRetry E s of
         Inl e \<Rightarrow> False
       | Inr s' \<Rightarrow>
         offered DcachePort (hist s') = offered DcachePort (hist s) @ [p] \<and>
         offered IcachePort (hist s') = offered IcachePort (hist s) \<and>
         ifetch_pkt s' = ifetch_pkt s \<and>
         (if sendTiming E (hist s) DcachePort p
          then status s' = DcacheWaitResponse \<and> dcache_pkt s' = None
          else status s' = DcacheRetry \<and> dcache_pkt s' = Some p)))"
  by (simp add: icache_recvRetry_def dcache_recvRetry_def port_sendTiming_def Let_def)

theorem recvRetry_reoffers_witness:
  "(let p = new_Packet 0 test_Request WriteReq [1] 0;
        s = (TimingSimpleCPU 0)\<lparr>status := DcacheRetry, dcache_pkt := Some p\<rparr>;
        t = s\<lparr>hist := [SendTiming DcachePort p False]\<rparr>;
        q = new_Packet 1 test_Request ReadReq [0, 0, 0, 0] 0;
        u = (TimingSimpleCPU 0)\<lparr>status := IcacheRetry, ifetch_pkt := Some q,
                                  hist := [SendTiming IcachePort q False]\<rparr>
    in status s = DcacheRetry \<and> dcache_pkt s = Some p \<and>
       (case dcache_recvRetry test_env s of
          Inl e \<Rightarrow> False
        | Inr s' \<Rightarrow> status s' = DcacheRetry \<and> dcache_pkt s' = Some p \<and>
                   offered DcachePort (hist s') = [p]) \<and>
       status t = DcacheRetry \<and> dcache_pkt t = Some p \<and>
       (case dcache_recvRetry test_env t of
          Inl e \<Rightarrow> False
        | Inr s' \<Rightarrow> status s' = DcacheWaitResponse \<and> dcache_pkt s' = None \<and>
                   offered DcachePort (hist s') = [p, p]) \<and>
       status u = IcacheRetry \<and> ifetch_pkt u = Some q \<and>
       (case icache_recvRetry test_env u of
          Inl e \<Rightarrow> False
        | Inr s' \<Rightarrow> status s' = IcacheWaitResponse \<and> ifetch_pkt s' = None \<and>
                   offered IcachePort (hist s') = [q, q]))"
  using
    recvRetry_reoffers [of "(TimingSimpleCPU 0)\<lparr>status := DcacheRetry,
        dcache_pkt := Some (new_Packet 0 test_Request WriteReq [1] 0)\<rparr>"
      "new_Packet 0 test_Request WriteReq [1] 0" test_env]
    recvRetry_reoffers [of "(TimingSimpleCPU 0)\<lparr>status := DcacheRetry,
        dcache_pkt := Some (new_Packet 0 test_Request WriteReq [1] 0),
        hist := [SendTiming DcachePort (new_Packet 0 test_Request WriteReq [1] 0) False]\<rparr>"
      "new_Packet 0 test_Request WriteReq [1] 0" test_env]
    recvRetry_reoffers [of "(TimingSimpleCPU 0)\<lparr>status := IcacheRetry,
        ifetch_pkt := Some (new_Packet 1 test_Request ReadReq [0, 0, 0, 0] 0),
        hist := [SendTiming IcachePort (new_Packet 1 test_Request ReadReq [0, 0, 0, 0] 0) False]\<rparr>"
      "new_Packet 1 test_Request ReadReq [0, 0, 0, 0] 0" test_env]
  by (simp add: Let_def TimingSimpleCPU_def test_env_def split: sum.splits)

text \<open>
  C5. A \<^verbatim>\<open>read\<close> whose translation succeeds offers one new read packet \<open>p\<close> for the
  translated request on the data port; accepted, the CPU is in \<open>DcacheWaitResponse\<close> with
  \<open>dcache_pkt\<close> NULL; rejected, it is in \<open>DcacheRetry\<close> with \<open>dcache_pkt\<close> pointing to
  \<open>p\<close>. A \<^verbatim>\<open>write\<close> whose translation succeeds and whose locked-write check permits the
  access does the same with a write packet carrying the data; it reaches \<^verbatim>\<open>sendTiming\<close>
  exactly when its assertion that no data packet is held passes, and aborts on that assertion
  otherwise.
\<close>

theorem read_write_send:
  "(translateDataReadReq E (hist s) (new_Request E s a sz fl) = (NoFault, rq) \<longrightarrow>
      (let p = new_Packet (next_id s) rq ReadReq (replicate (nat sz) 0) (curTick E);
           h = hist s @ [TranslateDataReadReq (new_Request E s a sz fl) NoFault]
       in case read E a sz fl s of (fault, s') \<Rightarrow>
         fault = NoFault \<and>
         offered DcachePort (hist s') = offered DcachePort (hist s) @ [p] \<and>
         (if sendTiming E h DcachePort p
          then status s' = DcacheWaitResponse \<and> dcache_pkt s' = None
          else status s' = DcacheRetry \<and> dcache_pkt s' = Some p)))
   \<and> (translateDataWriteReq E (hist s) (new_Request E s a (int (length d)) fl) = (NoFault, rq) \<and>
      (LOCKED \<in> req_flags rq \<longrightarrow>
         handleLockedWrite E
           (hist s @ [TranslateDataWriteReq (new_Request E s a (int (length d)) fl) NoFault]) rq)
      \<longrightarrow>
      (let p = new_Packet (next_id s) rq WriteReq d (curTick E);
           h = hist s @ [TranslateDataWriteReq (new_Request E s a (int (length d)) fl) NoFault]
                 @ (if LOCKED \<in> req_flags rq then [HandleLockedWrite rq True] else [])
       in case write_cpu E d a fl s of
            Inl e \<Rightarrow> dcache_pkt s \<noteq> None \<and> e = AssertFailed ''dcache_pkt == NULL''
          | Inr (fault, s') \<Rightarrow>
              dcache_pkt s = None \<and> fault = NoFault \<and>
              offered DcachePort (hist s') = offered DcachePort (hist s) @ [p] \<and>
              (if sendTiming E h DcachePort p
               then status s' = DcacheWaitResponse \<and> dcache_pkt s' = None
               else status s' = DcacheRetry \<and> dcache_pkt s' = Some p)))"
  by (simp add: read_def write_cpu_def port_sendTiming_def Let_def)

theorem read_write_send_witness:
  "(let s = (TimingSimpleCPU 0)\<lparr>status := Running\<rparr>;
        p = new_Packet 0 test_Request ReadReq [0, 0, 0, 0] 0;
        t = s\<lparr>hist := [SendTiming DcachePort p False], next_id := 1\<rparr>;
        rq = test_Request\<lparr>req_flags := {LOCKED}\<rparr>;
        q = new_Packet 1 rq WriteReq [1, 2, 3, 4] 0
    in translateDataReadReq test_env (hist s) (new_Request test_env s 64 4 {})
         = (NoFault, test_Request) \<and>
       (case read test_env 64 4 {} s of (f, s') \<Rightarrow>
          f = NoFault \<and> status s' = DcacheRetry \<and> dcache_pkt s' = Some p \<and>
          offered DcachePort (hist s') = [p]) \<and>
       translateDataWriteReq test_env (hist t) (new_Request test_env t 64 4 {LOCKED})
         = (NoFault, rq) \<and>
       (case write_cpu test_env [1, 2, 3, 4] 64 {LOCKED} t of
          Inl e \<Rightarrow> False
        | Inr (f, s') \<Rightarrow>
          f = NoFault \<and> status s' = DcacheWaitResponse \<and> dcache_pkt s' = None \<and>
          offered DcachePort (hist s') = [p, q]) \<and>
       write_cpu test_env [1, 2, 3, 4] 64 {LOCKED} (t\<lparr>dcache_pkt := Some p\<rparr>)
         = Inl (AssertFailed ''dcache_pkt == NULL''))"
  using
    read_write_send [where E = test_env and s = "(TimingSimpleCPU 0)\<lparr>status := Running\<rparr>"
      and a = 64 and sz = 4 and fl = "{}" and rq = test_Request and d = "[]"]
    read_write_send [where E = test_env and s = "(TimingSimpleCPU 0)\<lparr>status := Running,
        hist := [SendTiming DcachePort (new_Packet 0 test_Request ReadReq [0, 0, 0, 0] 0) False],
        next_id := 1\<rparr>" and a = 64 and sz = 4 and fl = "{LOCKED}" and d = "[1, 2, 3, 4]"
      and rq = "test_Request\<lparr>req_flags := {LOCKED}\<rparr>"]
    read_write_send [where E = test_env and s = "(TimingSimpleCPU 0)\<lparr>status := Running,
        hist := [SendTiming DcachePort (new_Packet 0 test_Request ReadReq [0, 0, 0, 0] 0) False],
        next_id := 1,
        dcache_pkt := Some (new_Packet 0 test_Request ReadReq [0, 0, 0, 0] 0)\<rparr>"
      and a = 64 and sz = 4 and fl = "{LOCKED}" and d = "[1, 2, 3, 4]"
      and rq = "test_Request\<lparr>req_flags := {LOCKED}\<rparr>"]
  by (simp add: Let_def TimingSimpleCPU_def test_env_def test_Request_def new_Request_def
        read_def write_cpu_def port_sendTiming_def new_Packet_def called_def
        replicate_4)

text \<open>
  C7 (as amended). A drain request with the CPU idle, running or switched out returns 0 and
  moves the lifecycle state to \<open>Drained\<close>, touching nothing else. In every other status it
  returns 1, moves to \<open>Draining\<close> and stores the drain event, touching nothing else (so nothing
  is signalled yet). While the CPU is draining with the event stored, a retry on either port keeps
  it so and signals nothing. When the response of the outstanding access arrives (the data
  response while waiting for the data cache, or the fetch response while waiting for the
  instruction cache) and its result is \<open>Success\<close>, the completion callback moves the lifecycle
  state to \<open>Drained\<close>, signals exactly the stored event and starts no new fetch. When the result
  of the response is not \<open>Success\<close>, the completion callback aborts on its first assertion, so
  the stored event is not signalled and the CPU does not report drained. (The data completion
  also dereferences the current instruction, and fails when there is none.)
\<close>

theorem drain_ok:
  "(status s = Idle \<or> status s = Running \<or> status s = SwitchedOut \<longrightarrow>
      drain ev s = (0, s\<lparr>so_state := Drained\<rparr>))
   \<and> (\<not> (status s = Idle \<or> status s = Running \<or> status s = SwitchedOut) \<longrightarrow>
      drain ev s = (1, s\<lparr>so_state := Draining, drainEvent := Some ev\<rparr>))
   \<and> (so_state t = Draining \<and> drainEvent t = Some ev \<longrightarrow>
      (case icache_recvRetry E t of
         Inl e \<Rightarrow> ifetch_pkt t = None \<or> status t \<noteq> IcacheRetry
       | Inr t' \<Rightarrow> so_state t' = Draining \<and> drainEvent t' = Some ev \<and>
                   signalled (hist t') = signalled (hist t)) \<and>
      (case dcache_recvRetry E t of
         Inl e \<Rightarrow> dcache_pkt t = None \<or> status t \<noteq> DcacheRetry
       | Inr t' \<Rightarrow> so_state t' = Draining \<and> drainEvent t' = Some ev \<and>
                   signalled (hist t') = signalled (hist t)))
   \<and> (so_state t = Draining \<and> drainEvent t = Some ev \<and> status t = DcacheWaitResponse \<longrightarrow>
      (case completeDataAccess n E pkt t of
         Inl e \<Rightarrow>
           (if result pkt \<noteq> Success then e = AssertFailed ''pkt->result == Packet::Success''
            else curStaticInst t = None \<and> e = NullPointer ''curStaticInst'')
       | Inr t' \<Rightarrow>
         result pkt = Success \<and> curStaticInst t \<noteq> None \<and>
         so_state t' = Drained \<and> signalled (hist t') = signalled (hist t) @ [ev] \<and>
         status t' = Running \<and>
         offered IcachePort (hist t') = offered IcachePort (hist t)))
   \<and> (so_state t = Draining \<and> drainEvent t = Some ev \<and> status t = IcacheWaitResponse \<longrightarrow>
      (case completeIfetch n E pkt t of
         Inl e \<Rightarrow> result pkt \<noteq> Success \<and> e = AssertFailed ''pkt->result == Packet::Success''
       | Inr t' \<Rightarrow>
         result pkt = Success \<and>
         so_state t' = Drained \<and> signalled (hist t') = signalled (hist t) @ [ev] \<and>
         status t' = Running \<and>
         offered IcachePort (hist t') = offered IcachePort (hist t)))"
  by (auto simp: drain_def completeDataAccess_def completeIfetch_def completeDrain_def Let_def
        icache_recvRetry_def dcache_recvRetry_def port_sendTiming_def
      split: option.splits)

theorem drain_ok_witness:
  "(let s = TimingSimpleCPU 0;
        p = (new_Packet 0 test_Request (OtherCmd 1) [0, 0, 0, 0] 0)\<lparr>result := Success\<rparr>;
        q = new_Packet 1 test_Request WriteReq [1, 2, 3, 4] 0;
        u = (TimingSimpleCPU 0)\<lparr>status := DcacheRetry, dcache_pkt := Some q,
                                  curStaticInst := Some test_inst,
                                  hist := [SendTiming DcachePort q False]\<rparr>;
        u1 = snd (drain 7 u);
        u2 = (case dcache_recvRetry test_env u1 of Inr x \<Rightarrow> x | Inl e \<Rightarrow> u1);
        v = snd (drain 7 ((TimingSimpleCPU 0)\<lparr>status := IcacheWaitResponse\<rparr>))
    in status s = Idle \<and> fst (drain 7 s) = 0 \<and> so_state (snd (drain 7 s)) = Drained \<and>
       status u = DcacheRetry \<and> fst (drain 7 u) = 1 \<and>
       so_state u1 = Draining \<and> drainEvent u1 = Some 7 \<and> signalled (hist u1) = [] \<and>
       so_state u2 = Draining \<and> drainEvent u2 = Some 7 \<and> signalled (hist u2) = [] \<and>
       status u2 = DcacheWaitResponse \<and> result p = Success \<and> curStaticInst u2 \<noteq> None \<and>
       (case completeDataAccess 0 test_env p u2 of
          Inl e \<Rightarrow> False
        | Inr s' \<Rightarrow> so_state s' = Drained \<and> signalled (hist s') = [7]) \<and>
       so_state v = Draining \<and> drainEvent v = Some 7 \<and> status v = IcacheWaitResponse \<and>
       (case completeIfetch 0 test_env p v of
          Inl e \<Rightarrow> False
        | Inr s' \<Rightarrow> so_state s' = Drained \<and> signalled (hist s') = [7]))"
  using
    drain_ok [where s = "TimingSimpleCPU 0" and ev = 7 and n = 0 and E = test_env
      and t = "snd (drain 7 ((TimingSimpleCPU 0)\<lparr>status := DcacheRetry,
                 dcache_pkt := Some (new_Packet 1 test_Request WriteReq [1, 2, 3, 4] 0),
                 curStaticInst := Some test_inst,
                 hist := [SendTiming DcachePort
                            (new_Packet 1 test_Request WriteReq [1, 2, 3, 4] 0) False]\<rparr>))"
      and pkt = "(new_Packet 0 test_Request (OtherCmd 1) [0, 0, 0, 0] 0)\<lparr>result := Success\<rparr>"]
    drain_ok [where s = "(TimingSimpleCPU 0)\<lparr>status := DcacheRetry,
                 dcache_pkt := Some (new_Packet 1 test_Request WriteReq [1, 2, 3, 4] 0),
                 curStaticInst := Some test_inst,
                 hist := [SendTiming DcachePort
                            (new_Packet 1 test_Request WriteReq [1, 2, 3, 4] 0) False]\<rparr>"
      and ev = 7 and n = 0 and E = test_env
      and t = "(TimingSimpleCPU 0)\<lparr>status := DcacheWaitResponse, so_state := Draining,
                 drainEvent := Some 7, curStaticInst := Some test_inst,
                 hist := [SendTiming DcachePort
                            (new_Packet 1 test_Request WriteReq [1, 2, 3, 4] 0) False,
                          SendTiming DcachePort
                            (new_Packet 1 test_Request WriteReq [1, 2, 3, 4] 0) True]\<rparr>"
      and pkt = "(new_Packet 0 test_Request (OtherCmd 1) [0, 0, 0, 0] 0)\<lparr>result := Success\<rparr>"]
    drain_ok [where s = "(TimingSimpleCPU 0)\<lparr>status := IcacheWaitResponse\<rparr>"
      and ev = 7 and n = 0 and E = test_env
      and t = "snd (drain 7 ((TimingSimpleCPU 0)\<lparr>status := IcacheWaitResponse\<rparr>))"
      and pkt = "(new_Packet 0 test_Request (OtherCmd 1) [0, 0, 0, 0] 0)\<lparr>result := Success\<rparr>"]
  by (simp add: Let_def TimingSimpleCPU_def new_Packet_def drain_def test_env_def
        dcache_recvRetry_def port_sendTiming_def called_def
        completeDataAccess_def completeIfetch_def completeDrain_def test_inst_def)

text \<open>
  C7 as stated fails: a drain is requested while the CPU waits for the data cache (or for the
  instruction cache), and the response of the access in flight then comes back with the result
  \<open>BadAddress\<close>. The delivery aborts in the completion callback, on its assertion that the
  result is \<open>Success\<close>: the stored event is not signalled and the CPU stays \<open>Draining\<close>.
\<close>

theorem drain_counterexample:
  "(let p = (new_Packet 0 test_Request (OtherCmd 1) [0, 0, 0, 0] 0)\<lparr>result := BadAddress\<rparr>;
        u = (TimingSimpleCPU 0)\<lparr>status := DcacheWaitResponse, curStaticInst := Some test_inst\<rparr>;
        v = (TimingSimpleCPU 0)\<lparr>status := IcacheWaitResponse\<rparr>;
        abort = AssertFailed ''pkt->result == Packet::Success''
    in drain 7 u = (1, u\<lparr>so_state := Draining, drainEvent := Some 7\<rparr>) \<and>
       drain 7 v = (1, v\<lparr>so_state := Draining, drainEvent := Some 7\<rparr>) \<and>
       isResponse test_env (cmd p) \<and>
       dcache_recvTiming 0 test_env p (snd (drain 7 u)) = Inl abort \<and>
       completeDataAccess 0 test_env p (snd (drain 7 u)) = Inl abort \<and>
       icache_recvTiming 0 test_env p (snd (drain 7 v)) = Inl abort \<and>
       completeIfetch 0 test_env p (snd (drain 7 v)) = Inl abort \<and>
       signalled (hist (snd (drain 7 u))) = [] \<and> signalled (hist (snd (drain 7 v))) = [])"
  by (simp add: Let_def TimingSimpleCPU_def new_Packet_def drain_def test_env_def test_Request_def
        dcache_recvTiming_def icache_recvTiming_def completeDataAccess_def completeIfetch_def)








text \<open>
  C10 (as amended). \<^verbatim>\<open>recvTiming\<close> on either port never rejects a delivery. For a packet
  that is not a response it returns true and leaves the whole CPU state unchanged. For a response
  whose clock edge is still to come it returns true after handing the packet to the port's tick
  event. For a response that is due now, it returns true when the completion handler returns, and
  it aborts when the completion handler does.
\<close>

theorem recvTiming_accepts:
  "(\<not> isResponse E (cmd pkt) \<longrightarrow>
      icache_recvTiming n E pkt s = Inr (True, s) \<and> dcache_recvTiming n E pkt s = Inr (True, s))
   \<and> (isResponse E (cmd pkt) \<and> nextCycle E (req_time (req pkt)) \<noteq> curTick E \<longrightarrow>
        icache_recvTiming n E pkt s =
          Inr (True, called (EventSchedule IcachePort pkt (nextCycle E (req_time (req pkt))))
                       (s\<lparr>icache_tick_pkt := Some pkt\<rparr>)) \<and>
        dcache_recvTiming n E pkt s =
          Inr (True, called (EventSchedule DcachePort pkt (nextCycle E (req_time (req pkt))))
                       (s\<lparr>dcache_tick_pkt := Some pkt\<rparr>)))
   \<and> (isResponse E (cmd pkt) \<and> nextCycle E (req_time (req pkt)) = curTick E \<longrightarrow>
        icache_recvTiming n E pkt s =
          (case completeIfetch n E pkt s of Inl e \<Rightarrow> Inl e | Inr s' \<Rightarrow> Inr (True, s')) \<and>
        dcache_recvTiming n E pkt s =
          (case completeDataAccess n E pkt s of Inl e \<Rightarrow> Inl e | Inr s' \<Rightarrow> Inr (True, s')))
   \<and> icache_recvTiming n E pkt s \<noteq> Inr (False, t)
   \<and> dcache_recvTiming n E pkt s \<noteq> Inr (False, t)"
  by (simp add: icache_recvTiming_def dcache_recvTiming_def Let_def split: sum.splits)

theorem recvTiming_accepts_witness:
  "(let s = (TimingSimpleCPU 0)\<lparr>status := Running\<rparr>;
        p = new_Packet 0 test_Request InvalidateReq [] 0
    in \<not> isResponse test_env (cmd p) \<and>
       icache_recvTiming 0 test_env p s = Inr (True, s) \<and>
       dcache_recvTiming 0 test_env p s = Inr (True, s))"
  using
    recvTiming_accepts [where E = test_env and n = 0
      and pkt = "new_Packet 0 test_Request InvalidateReq [] 0"
      and s = "(TimingSimpleCPU 0)\<lparr>status := Running\<rparr>" and t = "TimingSimpleCPU 0"]
  by (simp add: Let_def test_env_def new_Packet_def)

text \<open>
  C10 as stated fails: the delivery of a response whose result is \<open>BadAddress\<close>, due at the
  current tick while the CPU waits for the instruction cache, fails the first assertion of
  \<^verbatim>\<open>completeIfetch\<close>; \<^verbatim>\<open>recvTiming\<close> does not return true.
\<close>

theorem recvTiming_counterexample:
  "icache_recvTiming 3 test_env
     ((new_Packet 0 test_Request (OtherCmd 1) [0, 0, 0, 0] 0)\<lparr>result := BadAddress\<rparr>)
     ((TimingSimpleCPU 0)\<lparr>status := IcacheWaitResponse\<rparr>)
   = Inl (AssertFailed ''pkt->result == Packet::Success'')"
  by (simp add: icache_recvTiming_def completeIfetch_def test_env_def new_Packet_def
        test_Request_def Let_def)

section \<open>Properties of the cache\<close>

lemma ccalled_simps [simp]:
  "chist (ccalled x c) = chist c @ [x]"
  "blkSize (ccalled x c) = blkSize c"
  "hitLatency (ccalled x c) = hitLatency c"
  "invalidatePkt (ccalled x c) = invalidatePkt c"
  "fastWrites (ccalled x c) = fastWrites c"
  "missCount (ccalled x c) = missCount c"
  "hits (ccalled x c) = hits c"
  "misses (ccalled x c) = misses c"
  "cnext_id (ccalled x c) = cnext_id c"
  "prefetchAccess (ccalled x c) = prefetchAccess c"
  by (simp_all add: ccalled_def)

text \<open>
  C1 (as amended). A snoop whose request is uncacheable returns at once, packet and cache
  untouched. Otherwise let \<open>pkt_in\<close> and \<open>c_in\<close> be the packet and the cache after the upward
  invalidate. When the coherence engine has no protocol and the snoop is not an invalidate,
  \<^verbatim>\<open>snoop\<close> does not look at the miss entry's state and hands the snoop to the engine's
  bus-request handling. When the engine has a protocol or the snoop is an invalidate, and the
  miss queue holds an entry in service for the line: if the request in flight is an invalidate or
  is not a cache fill, and the snoop is neither \<open>InvalidateReq\<close> nor \<open>WriteInvalidateReq\<close>,
  then \<^verbatim>\<open>snoop\<close> sets \<open>SATISFIED\<close> and \<open>NACKED_LINE\<close> on the packet and does nothing else
  after the upward invalidate (it aborts on its assertion if the packet is already
  \<open>SATISFIED\<close>); otherwise it sets the address of the cache's invalidate packet to the snoop's
  and appends that packet as a target of the entry, leaving the snoop packet as it is.
\<close>

theorem snoop_inService_mshr:
  "(UNCACHEABLE \<in> req_flags (req pkt) \<longrightarrow> snoop E pkt c = Inr (pkt, c))
   \<and>
   (UNCACHEABLE \<notin> req_flags (req pkt) \<and>
    pkt_in = propogateInvalidate E (chist c) pkt True \<and>
    c_in = ccalled (PropogateInvalidate pkt True) c \<and>
    \<not> (hasProtocol E \<or> cmd_isInvalidate E (cmd pkt_in))
    \<longrightarrow>
    snoop E pkt c =
      Inr (snoop_busRequest E pkt_in (findBlock E (chist c_in) pkt_in)
             (findMSHR E (chist c_in) (addr pkt_in AND NOT (word_of_int (blkSize c - 1)))) c_in))
   \<and>
   (UNCACHEABLE \<notin> req_flags (req pkt) \<and>
    pkt_in = propogateInvalidate E (chist c) pkt True \<and>
    c_in = ccalled (PropogateInvalidate pkt True) c \<and>
    (hasProtocol E \<or> cmd_isInvalidate E (cmd pkt_in)) \<and>
    findMSHR E (chist c_in) (addr pkt_in AND NOT (word_of_int (blkSize c - 1))) = Some m \<and>
    inService m
    \<longrightarrow>
    snoop E pkt c =
      (if (cmd_isInvalidate E (cmd (mshr_pkt m)) \<or> CACHE_LINE_FILL \<notin> flags (mshr_pkt m))
          \<and> cmd pkt_in \<noteq> InvalidateReq \<and> cmd pkt_in \<noteq> WriteInvalidateReq
       then (if SATISFIED \<in> flags pkt_in
             then Inl (AssertFailed ''!(pkt->flags & SATISFIED)'')
             else Inr (pkt_in\<lparr>flags := flags pkt_in \<union> {SATISFIED, NACKED_LINE}\<rparr>, c_in))
       else Inr (pkt_in,
              ccalled (AddTarget m ((invalidatePkt c)\<lparr>addr := addr pkt_in\<rparr>))
                (c_in\<lparr>invalidatePkt := (invalidatePkt c)\<lparr>addr := addr pkt_in\<rparr>\<rparr>))))"
  by (auto simp: snoop_def snoop_inService_def Let_def insert_commute)

theorem snoop_inService_mshr_witness:
  "(let pkt = new_Packet 9 line_Request ReadReq [0, 0, 0, 0] 0;
        upkt = new_Packet 9 (line_Request\<lparr>req_flags := {UNCACHEABLE}\<rparr>) ReadReq [0, 0, 0, 0] 0;
        c = Cache 4 1 False 0;
        c_in = c\<lparr>chist := [PropogateInvalidate pkt True]\<rparr>;
        inv = (invalidatePkt c)\<lparr>addr := 64\<rparr>
    in UNCACHEABLE \<in> req_flags (req upkt) \<and> snoop test_cenv upkt c = Inr (upkt, c) \<and>
       UNCACHEABLE \<notin> req_flags (req pkt) \<and> hasProtocol test_cenv \<and>
       findMSHR test_cenv (chist c_in) (addr pkt AND NOT (word_of_int (blkSize c - 1)))
         = Some wb_mshr \<and>
       inService wb_mshr \<and> inService fill_mshr \<and>
       snoop test_cenv pkt c = Inr (pkt\<lparr>flags := {SATISFIED, NACKED_LINE}\<rparr>, c_in) \<and>
       snoop (test_cenv\<lparr>findMSHR := \<lambda>h a. Some fill_mshr\<rparr>) pkt c =
         Inr (pkt, c\<lparr>invalidatePkt := inv,
                       chist := [PropogateInvalidate pkt True, AddTarget fill_mshr inv]\<rparr>) \<and>
       snoop (test_cenv\<lparr>hasProtocol := False\<rparr>) pkt c =
         Inr (pkt, c\<lparr>chist := [PropogateInvalidate pkt True,
                                 HandleBusRequest pkt None (Some wb_mshr),
                                 TagsHandleSnoop None {} None]\<rparr>))"
  using
    snoop_inService_mshr [where E = test_cenv
      and pkt = "new_Packet 9 (line_Request\<lparr>req_flags := {UNCACHEABLE}\<rparr>) ReadReq
                   [0, 0, 0, 0] 0"
      and c = "Cache 4 1 False 0"]
    snoop_inService_mshr [where E = test_cenv
      and pkt = "new_Packet 9 line_Request ReadReq [0, 0, 0, 0] 0" and c = "Cache 4 1 False 0"
      and m = wb_mshr and pkt_in = "new_Packet 9 line_Request ReadReq [0, 0, 0, 0] 0"
      and c_in = "ccalled (PropogateInvalidate (new_Packet 9 line_Request ReadReq [0, 0, 0, 0] 0)
                  True) (Cache 4 1 False 0)"]
    snoop_inService_mshr [where E = "test_cenv\<lparr>findMSHR := \<lambda>h a. Some fill_mshr\<rparr>"
      and pkt = "new_Packet 9 line_Request ReadReq [0, 0, 0, 0] 0" and c = "Cache 4 1 False 0"
      and m = fill_mshr and pkt_in = "new_Packet 9 line_Request ReadReq [0, 0, 0, 0] 0"
      and c_in = "ccalled (PropogateInvalidate (new_Packet 9 line_Request ReadReq [0, 0, 0, 0] 0)
                  True) (Cache 4 1 False 0)"]
    snoop_inService_mshr [where E = "test_cenv\<lparr>hasProtocol := False\<rparr>"
      and pkt = "new_Packet 9 line_Request ReadReq [0, 0, 0, 0] 0" and c = "Cache 4 1 False 0"
      and m = wb_mshr and pkt_in = "new_Packet 9 line_Request ReadReq [0, 0, 0, 0] 0"
      and c_in = "ccalled (PropogateInvalidate (new_Packet 9 line_Request ReadReq [0, 0, 0, 0] 0)
                  True) (Cache 4 1 False 0)"]
  by (simp add: Let_def test_cenv_def Cache_def new_Packet_def line_Request_def wb_mshr_def
        fill_mshr_def ccalled_def insert_commute snoop_busRequest_def)

text \<open>
  C1 as stated fails in three ways. The line has a miss entry in service whose request is a
  writeback. A read snoop with an uncacheable request returns at once: the packet comes back
  with no flag set and nothing is appended to any entry. A read snoop under a coherence engine
  that has no protocol goes straight to the engine's bus-request handling: again no flag is set
  and nothing is appended. And a snoop that is an invalidating command other than
  \<open>InvalidateReq\<close> and \<open>WriteInvalidateReq\<close>, here \<open>UpgradeReq\<close>, is NACKed and not
  appended.
\<close>

theorem snoop_guards_counterexample:
  "(let pkt = new_Packet 9 (line_Request\<lparr>req_flags := {UNCACHEABLE}\<rparr>) ReadReq [0, 0, 0, 0] 0;
        pkt' = new_Packet 9 line_Request ReadReq [0, 0, 0, 0] 0;
        upg = new_Packet 9 line_Request UpgradeReq [] 0;
        c = Cache 4 1 False 0
    in findMSHR test_cenv (chist c @ [PropogateInvalidate pkt True])
         (addr pkt AND NOT (word_of_int (blkSize c - 1))) = Some wb_mshr \<and>
       inService wb_mshr \<and> CACHE_LINE_FILL \<notin> flags (mshr_pkt wb_mshr) \<and>
       cmd pkt \<noteq> InvalidateReq \<and> cmd pkt \<noteq> WriteInvalidateReq \<and>
       snoop test_cenv pkt c = Inr (pkt, c) \<and>
       snoop (test_cenv\<lparr>hasProtocol := False\<rparr>) pkt' c =
         Inr (pkt', c\<lparr>chist := [PropogateInvalidate pkt' True,
                                  HandleBusRequest pkt' None (Some wb_mshr),
                                  TagsHandleSnoop None {} None]\<rparr>) \<and>
       cmd_isInvalidate test_cenv (cmd upg) \<and>
       snoop test_cenv upg c =
         Inr (upg\<lparr>flags := {SATISFIED, NACKED_LINE}\<rparr>,
              c\<lparr>chist := [PropogateInvalidate upg True]\<rparr>))"
  by (simp add: Let_def test_cenv_def Cache_def new_Packet_def line_Request_def wb_mshr_def
        snoop_def snoop_inService_def snoop_busRequest_def ccalled_def insert_commute)

lemma doWritebacks_eq: "doWritebacks ws c = c\<lparr>chist := chist c @ map DoWriteback ws\<rparr>"
  by (induction ws arbitrary: c) (simp_all add: ccalled_def)

lemma access_lookup_fields:
  "access_lookup E pkt c = (r, c1) \<Longrightarrow> fastWrites c1 = fastWrites c \<and> blkSize c1 = blkSize c"
  by (auto simp: access_lookup_def Let_def split: if_splits prod.splits)

lemma access_tail:
  assumes "access_lookup E pkt c = ((blk0, lat, wbs0, sz, pkt1), c1)"
    and "access_fastWrite E blk0 wbs0 pkt1 c1 = ((blk, wbs, pkt2), c2)"
  shows "case access E pkt c of (ok, pkt', c') \<Rightarrow>
           ok \<and> fastWrites c' = fastWrites c2 \<and>
           (\<exists>post. chist c' = chist c2 @ post \<and>
              (\<forall>x \<in> set post. (\<forall>b p st t. x \<noteq> TagsHandleFill b p st t) \<and> (\<forall>m. x \<noteq> Warn m)))"
  using assms
  by (auto simp: access_def Let_def doWritebacks_eq split: prod.splits if_splits)

text \<open>
  C2 (as amended). \<^verbatim>\<open>access\<close> always returns true. With \<open>blk\<close> and \<open>pkt_lk\<close> the block and
  the packet after the lookup, the fast write allocate is taken (the tag store is asked to fill,
  and \<open>fastWrites\<close> counts one more) exactly when no block was found, the packet is at least a
  block long, the coherence protocol allows fast writes, and the command is either
  \<open>WriteInvalidateReq\<close>, or \<open>WriteReq\<close> with no miss outstanding to the address. When it is
  taken with a miss outstanding (so for \<open>WriteInvalidateReq\<close> only), a warning is issued just
  before the fill and the access goes on as usual; no other warning or fill happens in
  \<^verbatim>\<open>access\<close>.
\<close>

theorem fast_write_allocate:
  "access_lookup E pkt c = ((blk, lat, wbs, sz, pkt_lk), c_lk) \<longrightarrow>
     (let miss = findMSHR E (chist c_lk) (addr pkt_lk);
          taken = (blk = None \<and> blkSize c \<le> pkt_size pkt_lk \<and> allowFastWrites E \<and>
                   (cmd pkt_lk = WriteInvalidateReq \<or> (cmd pkt_lk = WriteReq \<and> miss = None)));
          fill = TagsHandleFill None pkt_lk {BlkValid, BlkWritable} None;
          warning = Warn ''WriteInv doing a fastallocatewith an outstanding miss to the same address''
      in case access E pkt c of (ok, pkt', c') \<Rightarrow>
           ok \<and>
           fastWrites c' = (if taken then Suc (fastWrites c) else fastWrites c) \<and>
           (\<exists>post. chist c' =
                     chist c_lk @ (if taken then (if miss \<noteq> None then [warning] else []) @ [fill]
                                 else []) @ post \<and>
              (\<forall>x \<in> set post. (\<forall>b p st t. x \<noteq> TagsHandleFill b p st t) \<and> (\<forall>m. x \<noteq> Warn m))))"
proof
  assume l: "access_lookup E pkt c = ((blk, lat, wbs, sz, pkt_lk), c_lk)"
  obtain blk' wbs' pkt2 c2 where f: "access_fastWrite E blk wbs pkt_lk c_lk = ((blk', wbs', pkt2), c2)"
    by (metis prod.exhaust)
  from access_lookup_fields[OF l] have lf: "fastWrites c_lk = fastWrites c" "blkSize c_lk = blkSize c"
    by simp_all
  define miss where "miss = findMSHR E (chist c_lk) (addr pkt_lk)"
  define taken where "taken = (blk = None \<and> blkSize c \<le> pkt_size pkt_lk \<and> allowFastWrites E \<and>
                   (cmd pkt_lk = WriteInvalidateReq \<or> (cmd pkt_lk = WriteReq \<and> miss = None)))"
  have c2: "fastWrites c2 = (if taken then Suc (fastWrites c) else fastWrites c)"
    "chist c2 = chist c_lk @
       (if taken then (if miss \<noteq> None
          then [Warn ''WriteInv doing a fastallocatewith an outstanding miss to the same address'']
          else []) @ [TagsHandleFill None pkt_lk {BlkValid, BlkWritable} None]
        else [])"
    using f lf
    by (auto simp: access_fastWrite_def Let_def taken_def miss_def split: prod.splits if_splits)
  from access_tail[OF l f] c2 show "let miss = findMSHR E (chist c_lk) (addr pkt_lk);
          taken = (blk = None \<and> blkSize c \<le> pkt_size pkt_lk \<and> allowFastWrites E \<and>
                   (cmd pkt_lk = WriteInvalidateReq \<or> (cmd pkt_lk = WriteReq \<and> miss = None)));
          fill = TagsHandleFill None pkt_lk {BlkValid, BlkWritable} None;
          warning = Warn ''WriteInv doing a fastallocatewith an outstanding miss to the same address''
      in case access E pkt c of (ok, pkt', c') \<Rightarrow>
           ok \<and>
           fastWrites c' = (if taken then Suc (fastWrites c) else fastWrites c) \<and>
           (\<exists>post. chist c' =
                     chist c_lk @ (if taken then (if miss \<noteq> None then [warning] else []) @ [fill]
                                 else []) @ post \<and>
              (\<forall>x \<in> set post. (\<forall>b p st t. x \<noteq> TagsHandleFill b p st t) \<and> (\<forall>m. x \<noteq> Warn m)))"
    unfolding Let_def taken_def[symmetric] miss_def[symmetric]
    by (auto split: prod.splits simp: taken_def[symmetric] miss_def[symmetric])
qed

theorem fast_write_allocate_witness:
  "(let pkt = new_Packet 9 (line_Request\<lparr>paddr := 128\<rparr>) WriteReq [1, 2, 3, 4] 0;
        c = Cache 4 1 False 0
    in access_lookup test_cenv pkt c = ((None, 1, [], 4, pkt), ccalled (TagsHandleAccess pkt True) c)
       \<and>
       (case access test_cenv pkt c of (ok, pkt', c') \<Rightarrow>
          ok \<and> fastWrites c' = 1 \<and>
          chist c' = [TagsHandleAccess pkt True,
                      TagsHandleFill None pkt {BlkValid, BlkWritable} None,
                      Respond pkt 1]))"
  using
    fast_write_allocate [where E = test_cenv and c = "Cache 4 1 False 0"
      and pkt = "new_Packet 9 (line_Request\<lparr>paddr := 128\<rparr>) WriteReq [1, 2, 3, 4] 0"
      and blk = None and lat = 1 and wbs = "[]" and sz = 4
      and pkt_lk = "new_Packet 9 (line_Request\<lparr>paddr := 128\<rparr>) WriteReq [1, 2, 3, 4] 0"
      and c_lk = "ccalled (TagsHandleAccess
                  (new_Packet 9 (line_Request\<lparr>paddr := 128\<rparr>) WriteReq [1, 2, 3, 4] 0) True)
                  (Cache 4 1 False 0)"]
  by (simp add: Let_def test_cenv_def Cache_def new_Packet_def line_Request_def
        access_lookup_def access_def access_fastWrite_def ccalled_def)

text \<open>
  C2 as stated fails: a \<open>WriteInvalidateReq\<close> of a whole line to an address with an outstanding
  miss takes the fast write allocate; \<^verbatim>\<open>access\<close> warns, fills, counts the fast write, responds
  and returns true.
\<close>

theorem fast_write_allocate_counterexample:
  "(let pkt = new_Packet 9 line_Request WriteInvalidateReq [1, 2, 3, 4] 0;
        c = Cache 4 1 False 0
    in allowFastWrites test_cenv \<and>
       findMSHR test_cenv (chist c @ [TagsHandleAccess pkt True]) (addr pkt) = Some wb_mshr \<and>
       (case access test_cenv pkt c of (ok, pkt', c') \<Rightarrow>
          ok \<and> fastWrites c' = 1 \<and>
          chist c' = [TagsHandleAccess pkt True,
                      Warn ''WriteInv doing a fastallocatewith an outstanding miss to the same address'',
                      TagsHandleFill None pkt {BlkValid, BlkWritable} None,
                      Respond pkt 1]))"
  by (simp add: Let_def test_cenv_def Cache_def new_Packet_def line_Request_def
        access_lookup_def access_def access_fastWrite_def ccalled_def)









text \<open>
  C9 (as amended). A response whose result is \<open>Nacked\<close> and that carries a sender state is not
  retried: \<^verbatim>\<open>handleResponse\<close> gives the packet back to its miss entry, warns that NACKs from
  devices not on the same bus are not implemented, and returns: no fill, no writeback, nothing
  handed to the miss queue. A response without sender state is ignored by \<^verbatim>\<open>handleResponse\<close>
  altogether. \<^verbatim>\<open>snoopResponse\<close> on a packet flagged \<open>NACKED_LINE\<close> aborts on
  \<^verbatim>\<open>assert(0)\<close>.
\<close>

theorem nacked_response_not_retried:
  "(senderState pkt = Some m \<and> result pkt = Nacked \<longrightarrow>
      handleResponse E pkt c =
        (pkt, c\<lparr>chist := chist c @
                  [RestoreMSHRPkt m pkt,
                   Warn ''NACKs from devices not connected to the same bus not implemented'']\<rparr>))
   \<and> (senderState pkt = None \<longrightarrow> handleResponse E pkt c = (pkt, c))
   \<and> (NACKED_LINE \<in> flags pkt \<longrightarrow> snoopResponse E pkt c = Inl (AssertFailed ''0''))"
  by (simp add: handleResponse_def snoopResponse_def ccalled_def Let_def)

theorem nacked_response_not_retried_witness:
  "(let pkt = (new_Packet 9 line_Request ReadReq [0, 0, 0, 0] 0)
                \<lparr>result := Nacked, senderState := Some 3\<rparr>;
        c = Cache 4 1 False 0
    in senderState pkt = Some 3 \<and> result pkt = Nacked \<and>
       handleResponse test_cenv pkt c =
         (pkt, c\<lparr>chist := [RestoreMSHRPkt 3 pkt,
                 Warn ''NACKs from devices not connected to the same bus not implemented'']\<rparr>) \<and>
       NACKED_LINE \<in> flags (pkt\<lparr>flags := {NACKED_LINE}\<rparr>) \<and>
       snoopResponse test_cenv (pkt\<lparr>flags := {NACKED_LINE}\<rparr>) c = Inl (AssertFailed ''0''))"
  using
    nacked_response_not_retried [where E = test_cenv and c = "Cache 4 1 False 0" and m = 3
      and pkt = "(new_Packet 9 line_Request ReadReq [0, 0, 0, 0] 0)
                   \<lparr>result := Nacked, senderState := Some 3\<rparr>"]
    nacked_response_not_retried [where E = test_cenv and c = "Cache 4 1 False 0" and m = 3
      and pkt = "(new_Packet 9 line_Request ReadReq [0, 0, 0, 0] 0)
                   \<lparr>result := Nacked, senderState := Some 3, flags := {NACKED_LINE}\<rparr>"]
  by (simp add: Let_def Cache_def new_Packet_def)

text \<open>
  C9 as stated fails: a response whose result is \<open>Nacked\<close> and whose sender state is NULL is
  dropped by \<^verbatim>\<open>handleResponse\<close> without any signal.
\<close>

theorem nacked_response_counterexample:
  "(let pkt = (new_Packet 9 line_Request ReadReq [0, 0, 0, 0] 0)\<lparr>result := Nacked\<rparr>;
        c = Cache 4 1 False 0
    in result pkt = Nacked \<and> senderState pkt = None \<and>
       handleResponse test_cenv pkt c = (pkt, c))"
  by (simp add: Let_def new_Packet_def handleResponse_def)



lemma probe_fix_blkSize: "blkSize (snd (probe_fix E ts (p, c))) = blkSize c"
  by (induction ts arbitrary: p c) simp_all






end
